theory Spec2Isabelle
  imports Complex_Main "HOL-Library.Monad_Syntax"
begin

text \<open>
  A model of the ingestion pipeline of index.js: parseSubtronicsPayload,
  generateSubtronicsAlerts, the MQTT message handler for the topic \<open>SubTronics/data\<close> and
  the alert routes. Line numbers are those of src/index.js, whose first 1153 lines are the
  server these definitions follow.
\<close>

section \<open>JavaScript values\<close>

text \<open>
  A JavaScript Number is a finite value, \<open>NaN\<close> or one of the two infinities. Finite values
  are kept as exact rationals (every binary64 value is one); \<open>-0\<close> is identified with
  \<open>0\<close>, which \<open>===\<close>, \<open>>=\<close>, \<open>||\<close> and Map keys do as well.
\<close>

datatype jsnum = NaN | Fin rat | PosInf | NegInf

text \<open>
  What \<open>JSON.parse\<close> returns. An object is the list of its own properties; a property is
  read with \<open>map_of\<close>. A string is the list of its characters; the operations on strings
  that the model computes itself are equality and concatenation.
\<close>

datatype json =
    JNull
  | JBool bool
  | JNum jsnum
  | JStr string
  | JArr "json list"
  | JObj "(string \<times> json) list"

text \<open>
  The built-in functions of the language that index.js calls and whose results depend on
  the binary64 printing and reading algorithms, on Unicode or on the JSON grammar. They are
  parameters of the model: every theorem below holds for whatever they compute.
  \<^item> \<open>str_parseInt s\<close> is \<open>parseInt(s)\<close> and \<open>str_parseFloat s\<close> is \<open>parseFloat(s)\<close> for
    a string \<open>s\<close>;
  \<^item> \<open>num_toString n\<close> is \<open>String(n)\<close> for a Number \<open>n\<close>;
  \<^item> \<open>str_trim s\<close> is \<open>s.trim()\<close>;
  \<^item> \<open>JSON_parse s\<close> is \<open>JSON.parse(s)\<close>, \<open>None\<close> when it throws SyntaxError.
\<close>

record builtins =
  str_parseInt :: "string \<Rightarrow> jsnum"
  str_parseFloat :: "string \<Rightarrow> jsnum"
  num_toString :: "jsnum \<Rightarrow> string"
  str_trim :: "string \<Rightarrow> string"
  JSON_parse :: "string \<Rightarrow> json option"

text \<open>Truthiness, as \<open>||\<close> and \<open>if\<close> test it.\<close>

fun truthy :: "json \<Rightarrow> bool" where
  "truthy JNull = False"
| "truthy (JBool b) = b"
| "truthy (JNum n) = (n \<noteq> NaN \<and> n \<noteq> Fin 0)"
| "truthy (JStr s) = (s \<noteq> [])"
| "truthy (JArr xs) = True"
| "truthy (JObj kvs) = True"

text \<open>
  \<open>a || b\<close> where \<open>a\<close> is a property read (\<open>None\<close> is \<open>undefined\<close>) and \<open>b\<close> is defined,
  and \<open>a || b\<close> on two Numbers.
\<close>

definition or_default :: "json option \<Rightarrow> json \<Rightarrow> json" where
  "or_default a b = (case a of None \<Rightarrow> b | Some v \<Rightarrow> if truthy v then v else b)"

definition num_or :: "jsnum \<Rightarrow> jsnum \<Rightarrow> jsnum" where
  "num_or a b = (if a = NaN \<or> a = Fin 0 then b else a)"

text \<open>
  \<open>v[k]\<close> for a value \<open>v\<close> other than \<open>null\<close> and a property name \<open>k\<close> that index.js reads.
  None of those names is a property of a string, a number, a boolean, an array or of
  \<open>Object.prototype\<close>, so only an object's own properties answer. Reading a property of
  \<open>null\<close> throws TypeError; the callers test for \<open>null\<close> first.
\<close>

fun get_field :: "json \<Rightarrow> string \<Rightarrow> json option" where
  "get_field (JObj kvs) k = map_of kvs k"
| "get_field v k = None"

text \<open>
  The abstract operation ToString on a value, as a template literal and \<open>parseInt\<close> apply
  it; \<open>None\<close> is a TypeError. An array prints its elements joined by commas, \<open>null\<close>
  elements as the empty string. An object prints as \<open>[object Object]\<close> through
  \<open>Object.prototype.toString\<close>, unless it has an own property \<open>toString\<close>: a parsed value
  is never callable, and \<open>Object.prototype.valueOf\<close> returns the object itself, so the
  conversion throws.
\<close>

fun ToString :: "builtins \<Rightarrow> json \<Rightarrow> string option"
  and join_elems :: "builtins \<Rightarrow> json list \<Rightarrow> string option" where
  "ToString B JNull = Some ''null''"
| "ToString B (JBool b) = Some (if b then ''true'' else ''false'')"
| "ToString B (JNum n) = Some (num_toString B n)"
| "ToString B (JStr s) = Some s"
| "ToString B (JArr xs) = join_elems B xs"
| "ToString B (JObj kvs) =
     (if ''toString'' \<in> fst ` set kvs then None else Some ''[object Object]'')"
| "join_elems B [] = Some []"
| "join_elems B (x # xs) = do {
     a \<leftarrow> (if x = JNull then Some [] else ToString B x);
     if xs = [] then Some a
     else do { b \<leftarrow> join_elems B xs; Some (a @ '','' @ b) } }"

text \<open>The method call \<open>v.toString()\<close>: as ToString, but \<open>null\<close> has no methods.\<close>

definition method_toString :: "builtins \<Rightarrow> json \<Rightarrow> string option" where
  "method_toString B v = (if v = JNull then None else ToString B v)"

text \<open>
  \<open>parseInt(x)\<close> for a property read \<open>x\<close>: the argument is converted with ToString and
  the string is read; \<open>undefined\<close> prints as a word without digits, so the result is
  \<open>NaN\<close>.
\<close>

definition parseInt :: "builtins \<Rightarrow> json option \<Rightarrow> jsnum option" where
  "parseInt B x = (case x of None \<Rightarrow> Some NaN
                   | Some v \<Rightarrow> map_option (str_parseInt B) (ToString B v))"

text \<open>
  \<open>parseFloat(n)\<close> for a Number \<open>n\<close> is \<open>n\<close>: \<open>String(n)\<close> is a decimal literal (or
  \<open>Infinity\<close>, \<open>-Infinity\<close>, \<open>NaN\<close>) that reads back as the same Number.
\<close>

definition parseFloat_num :: "jsnum \<Rightarrow> jsnum" where
  "parseFloat_num n = n"

definition parseFloat :: "builtins \<Rightarrow> json \<Rightarrow> jsnum option" where
  "parseFloat B v = (case v of JNum n \<Rightarrow> Some (parseFloat_num n)
                     | _ \<Rightarrow> map_option (str_parseFloat B) (ToString B v))"

text \<open>\<open>a >= b\<close> on Numbers: false as soon as one side is \<open>NaN\<close>.\<close>

fun js_ge :: "jsnum \<Rightarrow> jsnum \<Rightarrow> bool" where
  "js_ge NaN b = False"
| "js_ge a NaN = False"
| "js_ge PosInf b = True"
| "js_ge a NegInf = True"
| "js_ge NegInf b = False"
| "js_ge a PosInf = False"
| "js_ge (Fin x) (Fin y) = (y \<le> x)"

section \<open>The canonical record and parseSubtronicsPayload\<close>

text \<open>The object literal \<open>normalized\<close> of parseSubtronicsPayload, field by field.\<close>

record canonical =
  device_name :: json
  serial_number :: json
  gas_type :: json
  timestamp :: json
  unit :: string
  message_type :: json
  sender :: json
  sensor_reading :: jsnum
  offset :: jsnum
  alarm_status :: string
  span_high :: jsnum
  span_low :: jsnum
  a1_level :: jsnum
  a2_level :: jsnum
  a3_level :: jsnum
  decimal_point :: jsnum
  a1_type :: json
  a1_hysteresis :: jsnum
  a1_latching :: jsnum
  a1_siren :: jsnum
  a1_buzzer :: jsnum
  alarm1_led :: jsnum
  alarm2_led :: jsnum
  alarm3_led :: jsnum
  sensor_fault :: jsnum
  latitude :: json
  longitude :: json
  raw_message :: json
  processed_at :: string
  data_quality :: string

text \<open>
  \<open>const data = typeof rawJson === 'string' ? JSON.parse(rawJson) : rawJson\<close>, followed
  by the first property read, which throws on \<open>null\<close>. \<open>None\<close> is the exception that the
  \<open>catch\<close> of parseSubtronicsPayload turns into \<open>return null\<close>.
\<close>

definition payload_data :: "builtins \<Rightarrow> json \<Rightarrow> json option" where
  "payload_data B rawJson = do {
     data \<leftarrow> (case rawJson of JStr s \<Rightarrow> JSON_parse B s | _ \<Rightarrow> Some rawJson);
     if data = JNull then None else Some data }"

text \<open>\<open>const params = data["Parameters"] || {}\<close>\<close>

definition payload_params :: "json \<Rightarrow> json" where
  "payload_params data = or_default (get_field data ''Parameters'') (JObj [])"

text \<open>The \<open>if\<close> chain that sets \<open>unit\<close> (lines 199 to 210).\<close>

definition payload_unit :: "builtins \<Rightarrow> json \<Rightarrow> json \<Rightarrow> json option" where
  "payload_unit B data params =
     (case get_field params ''Unit of Measurement '' of
        Some c \<Rightarrow> do {
          unitCode \<leftarrow> parseInt B (Some c);
          Some (JStr (if unitCode = Fin 1 then ''ppm'' else ''ppm'')) }
      | None \<Rightarrow>
     (case get_field params ''Unit of Measurement'' of
        Some u \<Rightarrow> Some u
      | None \<Rightarrow>
     (case get_field data ''Unit of Measurement '' of
        Some u \<Rightarrow> Some u
      | None \<Rightarrow>
     (case get_field data ''Unit of Measurement'' of
        Some u \<Rightarrow> Some u
      | None \<Rightarrow> Some (JStr ''ppm'')))))"

text \<open>The \<open>if\<close> chain that sets \<open>gasConcentration\<close> (lines 214 to 223).\<close>

definition gasConcentration :: "builtins \<Rightarrow> json \<Rightarrow> json \<Rightarrow> jsnum option" where
  "gasConcentration B data params =
     (case get_field params ''Live Sensor Readings '' of
        Some v \<Rightarrow> parseFloat B v
      | None \<Rightarrow>
     (case get_field params ''Live Sensor Readings'' of
        Some v \<Rightarrow> parseFloat B v
      | None \<Rightarrow>
     (case get_field data ''Sensor Reading'' of
        Some v \<Rightarrow> parseFloat B v
      | None \<Rightarrow>
     (case get_field params ''Offset'' of
        Some v \<Rightarrow> parseFloat B v
      | None \<Rightarrow> Some (Fin 0)))))"

text \<open>\<open>parseInt(params[k]) || d\<close>\<close>

definition int_param :: "builtins \<Rightarrow> json \<Rightarrow> string \<Rightarrow> jsnum \<Rightarrow> jsnum option" where
  "int_param B params k d = do { n \<leftarrow> parseInt B (get_field params k); Some (num_or n d) }"

text \<open>
  \<open>parseInt(params["Sensor Fault"]) || parseInt(params["SensorFault"]) || 0\<close>: the second
  \<open>parseInt\<close> runs only when the first result is falsy.
\<close>

definition sensorFault :: "builtins \<Rightarrow> json \<Rightarrow> jsnum option" where
  "sensorFault B params = do {
     f \<leftarrow> parseInt B (get_field params ''Sensor Fault'');
     if f = NaN \<or> f = Fin 0 then int_param B params ''SensorFault'' (Fin 0) else Some f }"

text \<open>The derivation of \<open>alarmStatus\<close> (lines 231 to 234).\<close>

definition alarmStatus :: "jsnum \<Rightarrow> jsnum \<Rightarrow> jsnum \<Rightarrow> jsnum \<Rightarrow> string" where
  "alarmStatus fault alarm3Led alarm2Led alarm1Led =
     (if fault = Fin 1 \<or> alarm3Led = Fin 1 \<or> alarm2Led = Fin 1 \<or> alarm1Led = Fin 1
      then ''ALARM'' else ''NORMAL'')"

text \<open>
  parseSubtronicsPayload. \<open>t_reading\<close> is the value of \<open>new Date().toISOString()\<close> on
  line 190, evaluated only when neither timestamp field of the payload is truthy, and
  \<open>t_processed\<close> is its value on line 283. \<open>None\<close> is \<open>return null\<close>.
\<close>

definition parseSubtronicsPayload ::
  "builtins \<Rightarrow> string \<Rightarrow> string \<Rightarrow> json \<Rightarrow> canonical option" where
  "parseSubtronicsPayload B t_reading t_processed rawJson = do {
     data \<leftarrow> payload_data B rawJson;
     let deviceName = or_default (get_field data ''Device Alias Name'')
                        (or_default (get_field data ''Device Alise Name'') (JStr ''Unknown Device''));
     let serialNumber = or_default (get_field data ''OTSM-2 Serial Number'') (JStr ''Unknown'');
     let gasType = or_default (get_field data ''Gas'') (JStr ''Unknown Gas'');
     let time_stamp = or_default (get_field data ''Date Time At Reading'')
                       (or_default (get_field data ''timestamp'') (JStr t_reading));
     let messageType = or_default (get_field data ''Message Type'') (JStr ''LOG DATA'');
     let sender_name = or_default (get_field data ''Sender'') (JStr ''Device'');
     let params = payload_params data;
     unit_value \<leftarrow> payload_unit B data params;
     gas \<leftarrow> gasConcentration B data params;
     alarm1Led \<leftarrow> int_param B params ''Alarm 1 LED Status'' (Fin 0);
     alarm2Led \<leftarrow> int_param B params ''Alarm 2 LED Status'' (Fin 0);
     alarm3Led \<leftarrow> int_param B params ''Alarm 3 LED Status'' (Fin 0);
     fault \<leftarrow> sensorFault B params;
     let lat = or_default (get_field data ''lat'')
                      (or_default (get_field params ''lat'') (JStr ''0.00''));
     let long = or_default (get_field data ''long'')
                       (or_default (get_field params ''long'') (JStr ''0.00''));
     unit_text \<leftarrow> method_toString B unit_value;
     spanHigh \<leftarrow> int_param B params ''Span High'' (Fin 2000);
     spanLow \<leftarrow> int_param B params ''Span Low'' (Fin 0);
     a1 \<leftarrow> int_param B params ''Alarm Level A1'' (Fin 250);
     a2 \<leftarrow> int_param B params ''Alarm Level A2'' (Fin 500);
     a3 \<leftarrow> int_param B params ''Alarm Level A3'' (Fin 1000);
     decimalPoint \<leftarrow> int_param B params ''Decimal Point'' (Fin 0);
     a1Hysteresis \<leftarrow> int_param B params ''A1Hysterysis'' (Fin 0);
     a1Latching \<leftarrow> int_param B params ''A1Latching'' (Fin 0);
     a1Siren \<leftarrow> int_param B params ''A1Siren'' (Fin 0);
     a1Buzzer \<leftarrow> int_param B params ''A1Buzzer'' (Fin 0);
     Some \<lparr>
       device_name = deviceName,
       serial_number = serialNumber,
       gas_type = gasType,
       timestamp = time_stamp,
       unit = str_trim B unit_text,
       message_type = messageType,
       sender = sender_name,
       sensor_reading = gas,
       offset = gas,
       alarm_status = alarmStatus fault alarm3Led alarm2Led alarm1Led,
       span_high = spanHigh,
       span_low = spanLow,
       a1_level = a1,
       a2_level = a2,
       a3_level = a3,
       decimal_point = decimalPoint,
       a1_type = or_default (get_field params ''A1Type'') (JStr ''High''),
       a1_hysteresis = a1Hysteresis,
       a1_latching = a1Latching,
       a1_siren = a1Siren,
       a1_buzzer = a1Buzzer,
       alarm1_led = alarm1Led,
       alarm2_led = alarm2Led,
       alarm3_led = alarm3Led,
       sensor_fault = fault,
       latitude = lat,
       longitude = long,
       raw_message = data,
       processed_at = t_processed,
       data_quality = ''good'' \<rparr> }"

section \<open>generateSubtronicsAlerts\<close>

text \<open>
  An alert object. The first eleven properties are those of the object literals of
  generateSubtronicsAlerts (\<open>threshold\<close> is missing from the sensor fault alert),
  \<open>alert_acknowledged_at\<close> and \<open>alert_acknowledged_by\<close> are added by the acknowledge route.
  \<open>alert_acknowledged\<close> is the property \<open>acknowledged\<close>; \<open>None\<close> is a property that reads
  \<open>undefined\<close>.
\<close>

record alert =
  alert_id :: string
  alert_type :: string
  alert_severity :: string
  alert_message :: string
  alert_timestamp :: string
  alert_device_name :: json
  alert_serial_number :: json
  alert_threshold :: "jsnum option"
  alert_current_value :: jsnum
  alert_unit :: string
  alert_gas_type :: json
  alert_acknowledged :: "json option"
  alert_acknowledged_at :: "string option"
  alert_acknowledged_by :: "json option"

text \<open>
  The two clock readings taken while one alert is built: \<open>Date.now()\<close> for the id, in
  milliseconds, and \<open>new Date().toISOString()\<close> for the timestamp.
\<close>

record clock_reading =
  Date_now :: nat
  toISOString :: string

text \<open>The levels and the reading the comparisons use (lines 379 to 382).\<close>

definition sensorReading :: "canonical \<Rightarrow> jsnum" where
  "sensorReading data = num_or (parseFloat_num (sensor_reading data)) (Fin 0)"

definition a1Level :: "canonical \<Rightarrow> jsnum" where
  "a1Level data = num_or (parseFloat_num (a1_level data)) (Fin 250)"

definition a2Level :: "canonical \<Rightarrow> jsnum" where
  "a2Level data = num_or (parseFloat_num (a2_level data)) (Fin 500)"

definition a3Level :: "canonical \<Rightarrow> jsnum" where
  "a3Level data = num_or (parseFloat_num (a3_level data)) (Fin 1000)"

text \<open>The alert of the sensor fault branch (lines 360 to 371).\<close>

definition fault_alert :: "builtins \<Rightarrow> clock_reading \<Rightarrow> canonical \<Rightarrow> alert option" where
  "fault_alert B ck data = do {
     serial \<leftarrow> ToString B (serial_number data);
     Some \<lparr>
       alert_id = ''fault_'' @ serial @ ''_'' @ num_toString B (Fin (of_nat (Date_now ck))),
       alert_type = ''sensor_fault'',
       alert_severity = ''critical'',
       alert_message = ''Sensor fault detected'',
       alert_timestamp = toISOString ck,
       alert_device_name = device_name data,
       alert_serial_number = serial_number data,
       alert_threshold = None,
       alert_current_value = sensor_reading data,
       alert_unit = unit data,
       alert_gas_type = gas_type data,
       alert_acknowledged = None,
       alert_acknowledged_at = None,
       alert_acknowledged_by = None \<rparr> }"

text \<open>The alerts of the three threshold branches (lines 388 to 400, 407 to 419, 426 to 438).\<close>

definition alarm3_alert :: "builtins \<Rightarrow> clock_reading \<Rightarrow> canonical \<Rightarrow> alert option" where
  "alarm3_alert B ck data = do {
     serial \<leftarrow> ToString B (serial_number data);
     Some \<lparr>
       alert_id = ''alarm3_'' @ serial @ ''_'' @ num_toString B (Fin (of_nat (Date_now ck))),
       alert_type = ''alarm_level_3'',
       alert_severity = ''critical'',
       alert_message = ''Gas concentration above A3 threshold (''
          @ num_toString B (a3Level data) @ '' '' @ unit data @ '')'',
       alert_timestamp = toISOString ck,
       alert_device_name = device_name data,
       alert_serial_number = serial_number data,
       alert_threshold = Some (a3Level data),
       alert_current_value = sensorReading data,
       alert_unit = unit data,
       alert_gas_type = gas_type data,
       alert_acknowledged = None,
       alert_acknowledged_at = None,
       alert_acknowledged_by = None \<rparr> }"

definition alarm2_alert :: "builtins \<Rightarrow> clock_reading \<Rightarrow> canonical \<Rightarrow> alert option" where
  "alarm2_alert B ck data = do {
     serial \<leftarrow> ToString B (serial_number data);
     Some \<lparr>
       alert_id = ''alarm2_'' @ serial @ ''_'' @ num_toString B (Fin (of_nat (Date_now ck))),
       alert_type = ''alarm_level_2'',
       alert_severity = ''high'',
       alert_message = ''Gas concentration above A2 threshold (''
          @ num_toString B (a2Level data) @ '' '' @ unit data @ '')'',
       alert_timestamp = toISOString ck,
       alert_device_name = device_name data,
       alert_serial_number = serial_number data,
       alert_threshold = Some (a2Level data),
       alert_current_value = sensorReading data,
       alert_unit = unit data,
       alert_gas_type = gas_type data,
       alert_acknowledged = None,
       alert_acknowledged_at = None,
       alert_acknowledged_by = None \<rparr> }"

definition alarm1_alert :: "builtins \<Rightarrow> clock_reading \<Rightarrow> canonical \<Rightarrow> alert option" where
  "alarm1_alert B ck data = do {
     serial \<leftarrow> ToString B (serial_number data);
     Some \<lparr>
       alert_id = ''alarm1_'' @ serial @ ''_'' @ num_toString B (Fin (of_nat (Date_now ck))),
       alert_type = ''alarm_level_1'',
       alert_severity = ''warning'',
       alert_message = ''Gas concentration above A1 threshold (''
          @ num_toString B (a1Level data) @ '' '' @ unit data @ '')'',
       alert_timestamp = toISOString ck,
       alert_device_name = device_name data,
       alert_serial_number = serial_number data,
       alert_threshold = Some (a1Level data),
       alert_current_value = sensorReading data,
       alert_unit = unit data,
       alert_gas_type = gas_type data,
       alert_acknowledged = None,
       alert_acknowledged_at = None,
       alert_acknowledged_by = None \<rparr> }"

text \<open>
  generateSubtronicsAlerts. \<open>ck_fault\<close> is the clock as the sensor fault alert reads it and
  \<open>ck_alarm\<close> as the threshold alert does. \<open>None\<close> is a TypeError thrown by a template
  literal. Every alert pushed is also handed to \<open>logAlarmEvent(data.serial_number, alert)\<close>,
  in the same order.
\<close>

definition generateSubtronicsAlerts ::
  "builtins \<Rightarrow> clock_reading \<Rightarrow> clock_reading \<Rightarrow> canonical \<Rightarrow> alert list option" where
  "generateSubtronicsAlerts B ck_fault ck_alarm data = do {
     alerts \<leftarrow> (if sensor_fault data = Fin 1
                then map_option (\<lambda>a. [a]) (fault_alert B ck_fault data)
                else Some []);
     if js_ge (sensorReading data) (a3Level data)
       then map_option (\<lambda>a. alerts @ [a]) (alarm3_alert B ck_alarm data)
     else if js_ge (sensorReading data) (a2Level data)
       then map_option (\<lambda>a. alerts @ [a]) (alarm2_alert B ck_alarm data)
     else if js_ge (sensorReading data) (a1Level data)
       then map_option (\<lambda>a. alerts @ [a]) (alarm1_alert B ck_alarm data)
     else Some alerts }"

section \<open>The store, the message handler and the acknowledge route\<close>

text \<open>
  A key of the Map \<open>subtronicsData\<close>. Strings, numbers and booleans are compared by value, an
  array or an object by identity: \<open>KRef n\<close> is the \<open>n\<close>-th such value used as a key.
\<close>

datatype mkey = KVal json | KRef nat

definition map_key :: "nat \<Rightarrow> json \<Rightarrow> mkey" where
  "map_key n v = (case v of JArr xs \<Rightarrow> KRef n | JObj kvs \<Rightarrow> KRef n | _ \<Rightarrow> KVal v)"

text \<open>The Map holds canonical records and arrays of alerts side by side.\<close>

datatype stored = Record canonical | Alerts "alert list"

text \<open>
  \<open>io.to(room).emit('device:data', {deviceId, data, timestamp})\<close> and
  \<open>io.to(room).emit('device:alerts', {deviceId, alerts})\<close>.
\<close>

datatype event =
    Device_data string json canonical string
  | Device_alerts string json "alert list"

text \<open>
  The state that the handler and the routes below read and write: the Map, the number of
  arrays and objects used as keys so far, the events emitted so far and the calls of
  logAlarmEvent made so far.
\<close>

record state =
  subtronicsData :: "mkey \<Rightarrow> stored option"
  next_ref :: nat
  emitted :: "event list"
  alarm_log_calls :: "(json \<times> alert) list"

text \<open>The clock readings of one run of the message handler, in the order they are taken.\<close>

record message_clock =
  t_reading :: string
  t_processed :: string
  t_emit :: string
  ck_fault :: clock_reading
  ck_alarm :: clock_reading

text \<open>The key \<open>`${deviceId}_alerts`\<close> for a device id that printed as \<open>d\<close>.\<close>

definition alerts_key :: "string \<Rightarrow> mkey" where
  "alerts_key d = KVal (JStr (d @ ''_alerts''))"

text \<open>
  The handler of \<open>mqttClient.on('message')\<close> for the topic \<open>SubTronics/data\<close> (lines 489 to
  529 and the \<open>catch\<close> of line 556); the branches for the other topics write to other Maps.
  An exception leaves the handler through the \<open>catch\<close>, which only logs: the state is then
  the one reached so far. Spreading a stored value that is a record and not an array
  throws TypeError. \<open>alarm_log_calls\<close> records the calls of logAlarmEvent that
  generateSubtronicsAlerts makes, one for each alert.
\<close>

definition on_message :: "builtins \<Rightarrow> message_clock \<Rightarrow> string \<Rightarrow> state \<Rightarrow> state" where
  "on_message B ck message s =
     (case JSON_parse B message of
        None \<Rightarrow> s
      | Some data \<Rightarrow>
     (case parseSubtronicsPayload B (t_reading ck) (t_processed ck) data of
        None \<Rightarrow> s
      | Some normalized \<Rightarrow>
          let deviceId = serial_number normalized;
              s1 = s\<lparr>subtronicsData :=
                       (subtronicsData s)(map_key (next_ref s) deviceId \<mapsto> Record normalized),
                     next_ref := Suc (next_ref s)\<rparr>
          in
     (case ToString B deviceId of
        None \<Rightarrow> s1
      | Some d \<Rightarrow>
          let s2 = s1\<lparr>emitted := emitted s1 @
                       [Device_data (''device:'' @ d) deviceId normalized (t_emit ck)]\<rparr>
          in
     (case generateSubtronicsAlerts B (ck_fault ck) (ck_alarm ck) normalized of
        None \<Rightarrow> s2
      | Some alerts \<Rightarrow>
          let s3 = s2\<lparr>alarm_log_calls :=
                       alarm_log_calls s2 @ map (Pair (serial_number normalized)) alerts\<rparr>
          in
          if alerts = [] then s3
          else
     (case subtronicsData s3 (alerts_key d) of
        Some (Record r) \<Rightarrow> s3
      | Some (Alerts existingAlerts) \<Rightarrow>
          s3\<lparr>subtronicsData := (subtronicsData s3)(alerts_key d \<mapsto> Alerts (existingAlerts @ alerts)),
             emitted := emitted s3 @ [Device_alerts (''device:'' @ d) deviceId alerts]\<rparr>
      | None \<Rightarrow>
          s3\<lparr>subtronicsData := (subtronicsData s3)(alerts_key d \<mapsto> Alerts ([] @ alerts)),
             emitted := emitted s3 @ [Device_alerts (''device:'' @ d) deviceId alerts]\<rparr>)))))"

text \<open>
  \<open>GET /devices/:deviceId/subtronics/alerts\<close>: the body of the response,
  \<open>subtronicsData.get(`${deviceId}_alerts`) || []\<close>. The device id is a string of the URL.
\<close>

definition get_alerts :: "string \<Rightarrow> state \<Rightarrow> stored" where
  "get_alerts deviceId s =
     (case subtronicsData s (alerts_key deviceId) of None \<Rightarrow> Alerts [] | Some v \<Rightarrow> v)"

text \<open>\<open>findIndex\<close> of an array: the first index whose element passes, \<open>None\<close> for \<open>-1\<close>.\<close>

fun findIndex :: "('a \<Rightarrow> bool) \<Rightarrow> 'a list \<Rightarrow> nat option" where
  "findIndex P [] = None"
| "findIndex P (x # xs) = (if P x then Some 0 else map_option Suc (findIndex P xs))"

text \<open>
  The responses of the acknowledge route: \<open>{success: true}\<close>, status 404, and status 500
  when the handler throws (the stored value is a record, which has no \<open>findIndex\<close>).
\<close>

datatype ack_response = Success | NotFound | ServerError

text \<open>
  \<open>POST /devices/:deviceId/subtronics/alerts/:alertId/acknowledge\<close> (lines 862 to 879).
  \<open>now\<close> is \<open>new Date().toISOString()\<close> and \<open>acknowledged_by\<close> the property of that name of
  the request body.
\<close>

definition acknowledge ::
  "string \<Rightarrow> string \<Rightarrow> string \<Rightarrow> json option \<Rightarrow> state \<Rightarrow> ack_response \<times> state" where
  "acknowledge now deviceId alertId acknowledged_by s =
     (case get_alerts deviceId s of
        Record r \<Rightarrow> (ServerError, s)
      | Alerts alerts \<Rightarrow>
     (case findIndex (\<lambda>a. alert_id a = alertId) alerts of
        Some alertIndex \<Rightarrow>
          (Success,
           s\<lparr>subtronicsData := (subtronicsData s)(alerts_key deviceId \<mapsto>
                Alerts (alerts[alertIndex := (alerts ! alertIndex)
                  \<lparr>alert_acknowledged_at := Some now,
                   alert_acknowledged_by := acknowledged_by\<rparr>]))\<rparr>)
      | None \<Rightarrow> (NotFound, s)))"

text \<open>The state at start-up: \<open>const subtronicsData = new Map()\<close>, nothing emitted.\<close>

definition initial_state :: state where
  "initial_state = \<lparr>subtronicsData = Map.empty, next_ref = 0, emitted = [],
     alarm_log_calls = []\<rparr>"

text \<open>The array a stored value is, when it is one.\<close>

definition alerts_of :: "stored \<Rightarrow> alert list" where
  "alerts_of v = (case v of Alerts as \<Rightarrow> as | Record r \<Rightarrow> [])"

section \<open>The primary reading, in the words of the specification\<close>

text \<open>
  The accepted names of the primary reading, in the order of priority the specification
  gives: \<open>Parameters["Live Sensor Readings "]\<close>, \<open>Parameters["Live Sensor Readings"]\<close>, the
  top-level \<open>"Sensor Reading"\<close>, \<open>Parameters["Offset"]\<close>. The first value present wins and
  is parsed as floating point; when none is present the reading is 0.
\<close>

definition reading_candidates :: "json \<Rightarrow> json option list" where
  "reading_candidates data =
     [get_field (payload_params data) ''Live Sensor Readings '',
      get_field (payload_params data) ''Live Sensor Readings'',
      get_field data ''Sensor Reading'',
      get_field (payload_params data) ''Offset'']"

definition primary_reading_by_priority :: "builtins \<Rightarrow> json \<Rightarrow> jsnum option" where
  "primary_reading_by_priority B data =
     (case [v. Some v \<leftarrow> reading_candidates data] of
        [] \<Rightarrow> Some (Fin 0)
      | v # vs \<Rightarrow> parseFloat B v)"

section \<open>Example inputs\<close>

text \<open>
  The built-ins on the strings and numbers of the examples below: each entry is the value
  the language gives. Outside the two tables \<open>parseInt\<close> and \<open>parseFloat\<close> answer \<open>NaN\<close>
  and \<open>JSON.parse\<close> throws, which is what the language does on the other strings the
  examples pass (\<open>ERR\<close> and a truncated message); the examples trim no string with
  surrounding white space.
\<close>

definition number_texts :: "(rat \<times> string) list" where
  "number_texts =
     [(0, ''0''), (1, ''1''), (250, ''250''), (500, ''500''), (1000, ''1000''),
      (1200, ''1200''), (-10, ''-10''), (-20, ''-20''), (-30, ''-30''),
      (1700000000000, ''1700000000000''), (1700000000001, ''1700000000001'')]"

definition fault_message :: string where
  "fault_message =
     ''{\"OTSM-2 Serial Number\":\"OTSM-0114\",\"Parameters\":{\"Sensor Fault\":1}}''"

definition alias_message :: string where
  "alias_message = ''{\"OTSM-2 Serial Number\":\"OTSM-0114_alerts\"}''"

definition truncated_message :: string where
  "truncated_message = ''{\"OTSM-2 Serial Number\":''"

definition json_texts :: "(string \<times> json) list" where
  "json_texts =
     [(''null'', JNull),
      (fault_message,
       JObj [(''OTSM-2 Serial Number'', JStr ''OTSM-0114''),
             (''Parameters'', JObj [(''Sensor Fault'', JNum (Fin 1))])]),
      (alias_message,
       JObj [(''OTSM-2 Serial Number'', JStr ''OTSM-0114_alerts'')])]"

definition example_builtins :: builtins where
  "example_builtins = \<lparr>
     str_parseInt = (\<lambda>s. case map_of (map (\<lambda>(q, t). (t, q)) number_texts) s of
                          Some q \<Rightarrow> Fin q | None \<Rightarrow> NaN),
     str_parseFloat = (\<lambda>s. case map_of (map (\<lambda>(q, t). (t, q)) number_texts) s of
                          Some q \<Rightarrow> Fin q | None \<Rightarrow> NaN),
     num_toString = (\<lambda>n. case n of
                          Fin q \<Rightarrow> (case map_of number_texts q of Some t \<Rightarrow> t | None \<Rightarrow> ''?'')
                        | NaN \<Rightarrow> ''NaN'' | PosInf \<Rightarrow> ''Infinity'' | NegInf \<Rightarrow> ''-Infinity''),
     str_trim = (\<lambda>s. s),
     JSON_parse = map_of json_texts \<rparr>"

text \<open>The payload of the end-to-end scenario of the specification.\<close>

definition scenario :: json where
  "scenario = JObj [(''OTSM-2 Serial Number'', JStr ''OTSM-0114''),
     (''Parameters'', JObj [(''Live Sensor Readings '', JNum (Fin 1200)),
        (''Alarm Level A1'', JNum (Fin 250)), (''Alarm Level A2'', JNum (Fin 500)),
        (''Alarm Level A3'', JNum (Fin 1000)), (''Alarm 1 LED Status'', JNum (Fin 1))])]"

text \<open>
  A device that reports its reading as the text \<open>ERR\<close> and is configured with negative
  alarm levels.
\<close>

definition unreadable_payload :: json where
  "unreadable_payload = JObj [(''OTSM-2 Serial Number'', JStr ''OTSM-0114''),
     (''Parameters'', JObj [(''Live Sensor Readings '', JStr ''ERR''),
        (''Alarm Level A1'', JNum (Fin (-30))), (''Alarm Level A2'', JNum (Fin (-20))),
        (''Alarm Level A3'', JNum (Fin (-10)))])]"

text \<open>The records that parseSubtronicsPayload makes of the two payloads above.\<close>

definition scenario_record :: canonical where
  "scenario_record = \<lparr>
     device_name = JStr ''Unknown Device'', serial_number = JStr ''OTSM-0114'',
     gas_type = JStr ''Unknown Gas'', timestamp = JStr ''2023-11-14T22:13:20.000Z'',
     unit = ''ppm'', message_type = JStr ''LOG DATA'', sender = JStr ''Device'',
     sensor_reading = Fin 1200, offset = Fin 1200, alarm_status = ''ALARM'',
     span_high = Fin 2000, span_low = Fin 0, a1_level = Fin 250, a2_level = Fin 500,
     a3_level = Fin 1000, decimal_point = Fin 0, a1_type = JStr ''High'',
     a1_hysteresis = Fin 0, a1_latching = Fin 0, a1_siren = Fin 0, a1_buzzer = Fin 0,
     alarm1_led = Fin 1, alarm2_led = Fin 0, alarm3_led = Fin 0, sensor_fault = Fin 0,
     latitude = JStr ''0.00'', longitude = JStr ''0.00'', raw_message = scenario,
     processed_at = ''2023-11-14T22:13:20.000Z'', data_quality = ''good''\<rparr>"

definition unreadable_record :: canonical where
  "unreadable_record = \<lparr>
     device_name = JStr ''Unknown Device'', serial_number = JStr ''OTSM-0114'',
     gas_type = JStr ''Unknown Gas'', timestamp = JStr ''2023-11-14T22:13:20.000Z'',
     unit = ''ppm'', message_type = JStr ''LOG DATA'', sender = JStr ''Device'',
     sensor_reading = NaN, offset = NaN, alarm_status = ''NORMAL'',
     span_high = Fin 2000, span_low = Fin 0, a1_level = Fin (-30), a2_level = Fin (-20),
     a3_level = Fin (-10), decimal_point = Fin 0, a1_type = JStr ''High'',
     a1_hysteresis = Fin 0, a1_latching = Fin 0, a1_siren = Fin 0, a1_buzzer = Fin 0,
     alarm1_led = Fin 0, alarm2_led = Fin 0, alarm3_led = Fin 0, sensor_fault = Fin 0,
     latitude = JStr ''0.00'', longitude = JStr ''0.00'', raw_message = unreadable_payload,
     processed_at = ''2023-11-14T22:13:20.000Z'', data_quality = ''good''\<rparr>"

text \<open>A payload whose alarm levels are all configured as zero.\<close>

definition zero_levels_payload :: json where
  "zero_levels_payload = JObj [(''OTSM-2 Serial Number'', JStr ''OTSM-0114''),
     (''Parameters'', JObj [(''Alarm Level A1'', JNum (Fin 0)),
        (''Alarm Level A2'', JNum (Fin 0)), (''Alarm Level A3'', JStr ''0'')])]"

text \<open>A payload that carries three of the four names of the primary reading.\<close>

definition priority_payload :: json where
  "priority_payload = JObj [(''Sensor Reading'', JNum (Fin 7)),
     (''Parameters'', JObj [(''Offset'', JNum (Fin 5)),
        (''Live Sensor Readings '', JNum (Fin 1200))])]"

text \<open>The scenario payload with an explicit alarm status that contradicts its LED flag.\<close>

definition status_payload :: json where
  "status_payload = JObj [(''Alarm Status'', JStr ''NORMAL''),
     (''OTSM-2 Serial Number'', JStr ''OTSM-0114''),
     (''Parameters'', JObj [(''Live Sensor Readings '', JNum (Fin 1200)),
        (''Alarm Level A1'', JNum (Fin 250)), (''Alarm Level A2'', JNum (Fin 500)),
        (''Alarm Level A3'', JNum (Fin 1000)), (''Alarm 1 LED Status'', JNum (Fin 1))])]"

text \<open>Two runs of the handler within the same millisecond, and one a millisecond later.\<close>

definition clock_a :: message_clock where
  "clock_a = \<lparr>t_reading = ''2023-11-14T22:13:20.000Z'',
     t_processed = ''2023-11-14T22:13:20.000Z'', t_emit = ''2023-11-14T22:13:20.000Z'',
     ck_fault = \<lparr>Date_now = 1700000000000, toISOString = ''2023-11-14T22:13:20.000Z''\<rparr>,
     ck_alarm = \<lparr>Date_now = 1700000000000, toISOString = ''2023-11-14T22:13:20.000Z''\<rparr>\<rparr>"

definition clock_b :: message_clock where
  "clock_b = \<lparr>t_reading = ''2023-11-14T22:13:20.001Z'',
     t_processed = ''2023-11-14T22:13:20.001Z'', t_emit = ''2023-11-14T22:13:20.001Z'',
     ck_fault = \<lparr>Date_now = 1700000000001, toISOString = ''2023-11-14T22:13:20.001Z''\<rparr>,
     ck_alarm = \<lparr>Date_now = 1700000000001, toISOString = ''2023-11-14T22:13:20.001Z''\<rparr>\<rparr>"

text \<open>A payload that carries the time of its reading.\<close>

definition timed_payload :: json where
  "timed_payload = JObj [(''OTSM-2 Serial Number'', JStr ''OTSM-0114''),
     (''Date Time At Reading'', JStr ''2026-01-28 11:37:12''),
     (''Parameters'', JObj [(''Live Sensor Readings '', JNum (Fin 1200))])]"

text \<open>The state after the first message of a device that reports a sensor fault.\<close>

definition after_fault_message :: state where
  "after_fault_message = on_message example_builtins clock_a fault_message initial_state"

lemmas parse_defs = parseSubtronicsPayload_def payload_data_def payload_params_def
  payload_unit_def gasConcentration_def int_param_def sensorFault_def alarmStatus_def
  parseInt_def parseFloat_def parseFloat_num_def method_toString_def or_default_def num_or_def

lemmas alert_defs = generateSubtronicsAlerts_def fault_alert_def alarm1_alert_def
  alarm2_alert_def alarm3_alert_def sensorReading_def a1Level_def a2Level_def a3Level_def

lemmas handler_defs = on_message_def get_alerts_def alerts_key_def map_key_def
  acknowledge_def

lemmas example_defs = example_builtins_def number_texts_def json_texts_def fault_message_def
  alias_message_def truncated_message_def scenario_def unreadable_payload_def
  zero_levels_payload_def clock_a_def clock_b_def initial_state_def priority_payload_def
  status_payload_def timed_payload_def after_fault_message_def

lemmas eval_defs = alerts_of_def handler_defs parse_defs alert_defs
  example_defs Let_def

section \<open>Supporting lemmas\<close>

text \<open>What a successful run of parseSubtronicsPayload says about the fields of its result.\<close>

lemma parse_fields:
  assumes "parseSubtronicsPayload B t1 t2 raw = Some r"
  shows "\<exists>data. payload_data B raw = Some data \<and>
     gasConcentration B data (payload_params data) = Some (sensor_reading r) \<and>
     offset r = sensor_reading r \<and>
     int_param B (payload_params data) ''Alarm 1 LED Status'' (Fin 0) = Some (alarm1_led r) \<and>
     int_param B (payload_params data) ''Alarm 2 LED Status'' (Fin 0) = Some (alarm2_led r) \<and>
     int_param B (payload_params data) ''Alarm 3 LED Status'' (Fin 0) = Some (alarm3_led r) \<and>
     sensorFault B (payload_params data) = Some (sensor_fault r) \<and>
     alarm_status r = alarmStatus (sensor_fault r) (alarm3_led r) (alarm2_led r) (alarm1_led r) \<and>
     int_param B (payload_params data) ''Alarm Level A1'' (Fin 250) = Some (a1_level r) \<and>
     int_param B (payload_params data) ''Alarm Level A2'' (Fin 500) = Some (a2_level r) \<and>
     int_param B (payload_params data) ''Alarm Level A3'' (Fin 1000) = Some (a3_level r) \<and>
     raw_message r = data \<and> processed_at r = t2 \<and>
     timestamp r = or_default (get_field data ''Date Time At Reading'')
                       (or_default (get_field data ''timestamp'') (JStr t1))"
  using assms unfolding parseSubtronicsPayload_def Let_def
  by (auto simp: bind_eq_Some_conv)

text \<open>The example records are what the parser returns on the example payloads.\<close>

lemma parse_scenario:
  "parseSubtronicsPayload example_builtins ''2023-11-14T22:13:20.000Z''
     ''2023-11-14T22:13:20.000Z'' scenario = Some scenario_record"
  by (simp add: parse_defs example_defs scenario_record_def)

lemma parse_unreadable_payload:
  "parseSubtronicsPayload example_builtins ''2023-11-14T22:13:20.000Z''
     ''2023-11-14T22:13:20.000Z'' unreadable_payload = Some unreadable_record"
  by (simp add: parse_defs example_defs unreadable_record_def)

text \<open>
  On a record whose reading is a number and whose levels are numbers other than zero, the
  comparisons of the rule engine are those of the record's own fields. A tie is a breach.
\<close>

lemma numeric_record_is_compared_as_it_is:
  assumes "sensor_reading r \<noteq> NaN"
    and "a1_level r \<noteq> NaN" "a1_level r \<noteq> Fin 0"
    and "a2_level r \<noteq> NaN" "a2_level r \<noteq> Fin 0"
    and "a3_level r \<noteq> NaN" "a3_level r \<noteq> Fin 0"
  shows "js_ge (sensorReading r) (a1Level r) = js_ge (sensor_reading r) (a1_level r)"
    and "js_ge (sensorReading r) (a2Level r) = js_ge (sensor_reading r) (a2_level r)"
    and "js_ge (sensorReading r) (a3Level r) = js_ge (sensor_reading r) (a3_level r)"
  using assms
  by (cases "sensor_reading r"; cases "a1_level r"; cases "a2_level r"; cases "a3_level r";
      simp add: alert_defs parseFloat_num_def num_or_def)+

lemma js_ge_tie: "n \<noteq> NaN \<Longrightarrow> js_ge n n"
  by (cases n) simp_all

text \<open>The \<open>if\<close> chain of the source computes the reading the specification describes.\<close>

lemma gasConcentration_by_priority:
  "gasConcentration B data (payload_params data) = primary_reading_by_priority B data"
  by (simp add: gasConcentration_def primary_reading_by_priority_def reading_candidates_def
      split: option.splits)

text \<open>\<open>parseInt(x) || d\<close> is never zero when the default \<open>d\<close> is not.\<close>

lemma int_param_not_zero:
  "int_param B params k d = Some n \<Longrightarrow> d \<noteq> Fin 0 \<Longrightarrow> d \<noteq> NaN \<Longrightarrow> n \<noteq> Fin 0 \<and> n \<noteq> NaN"
  by (auto simp: int_param_def num_or_def bind_eq_Some_conv split: if_splits)

lemma int_param_zero:
  "int_param B params k d = Some n \<Longrightarrow> parseInt B (get_field params k) = Some (Fin 0) \<Longrightarrow> n = d"
  by (auto simp: int_param_def num_or_def bind_eq_Some_conv)

text \<open>The alarm status of the result, without the other fields.\<close>

lemma parse_alarm_status:
  "map_option alarm_status (parseSubtronicsPayload B t1 t2 raw) = do {
     data \<leftarrow> payload_data B raw;
     let params = payload_params data;
     unit_value \<leftarrow> payload_unit B data params;
     gas \<leftarrow> gasConcentration B data params;
     alarm1Led \<leftarrow> int_param B params ''Alarm 1 LED Status'' (Fin 0);
     alarm2Led \<leftarrow> int_param B params ''Alarm 2 LED Status'' (Fin 0);
     alarm3Led \<leftarrow> int_param B params ''Alarm 3 LED Status'' (Fin 0);
     fault \<leftarrow> sensorFault B params;
     unit_text \<leftarrow> method_toString B unit_value;
     spanHigh \<leftarrow> int_param B params ''Span High'' (Fin 2000);
     spanLow \<leftarrow> int_param B params ''Span Low'' (Fin 0);
     a1 \<leftarrow> int_param B params ''Alarm Level A1'' (Fin 250);
     a2 \<leftarrow> int_param B params ''Alarm Level A2'' (Fin 500);
     a3 \<leftarrow> int_param B params ''Alarm Level A3'' (Fin 1000);
     decimalPoint \<leftarrow> int_param B params ''Decimal Point'' (Fin 0);
     a1Hysteresis \<leftarrow> int_param B params ''A1Hysterysis'' (Fin 0);
     a1Latching \<leftarrow> int_param B params ''A1Latching'' (Fin 0);
     a1Siren \<leftarrow> int_param B params ''A1Siren'' (Fin 0);
     a1Buzzer \<leftarrow> int_param B params ''A1Buzzer'' (Fin 0);
     Some (alarmStatus fault alarm3Led alarm2Led alarm1Led) }"
  unfolding parseSubtronicsPayload_def Let_def
  by (simp add: map_option_bind comp_def)

text \<open>
  A top-level field under a name that the parser reads for no value that can make it fail
  changes neither the success of the parser nor the alarm status.
\<close>

lemma extra_field_alarm_status:
  assumes "k \<notin> {''Parameters'', ''Unit of Measurement '', ''Unit of Measurement'',
                ''Sensor Reading''}"
  shows "map_option alarm_status (parseSubtronicsPayload B t1 t2 (JObj ((k, v) # kvs))) =
         map_option alarm_status (parseSubtronicsPayload B t1 t2 (JObj kvs))"
proof -
  from assms have ne: "''Parameters'' \<noteq> k" "''Unit of Measurement '' \<noteq> k"
    "''Unit of Measurement'' \<noteq> k" "''Sensor Reading'' \<noteq> k"
    by auto
  have gf: "get_field (JObj ((k, v) # kvs)) n = get_field (JObj kvs) n" if "n \<noteq> k" for n
    using that by simp
  have p: "payload_params (JObj ((k, v) # kvs)) = payload_params (JObj kvs)"
    unfolding payload_params_def gf [OF ne(1)] by (rule refl)
  have u: "payload_unit B (JObj ((k, v) # kvs)) ps = payload_unit B (JObj kvs) ps" for ps
    unfolding payload_unit_def gf [OF ne(2)] gf [OF ne(3)] by (rule refl)
  have g: "gasConcentration B (JObj ((k, v) # kvs)) ps = gasConcentration B (JObj kvs) ps" for ps
    unfolding gasConcentration_def gf [OF ne(4)] by (rule refl)
  show ?thesis
    unfolding parse_alarm_status
    by (simp add: payload_data_def p u g Let_def)
qed

text \<open>A second run of the parser differs from the first in the two clock readings only.\<close>

lemma parse_at_other_time:
  "parseSubtronicsPayload B t2 p2 raw =
     map_option (\<lambda>r. r\<lparr>timestamp := or_default (get_field (raw_message r) ''Date Time At Reading'')
                          (or_default (get_field (raw_message r) ''timestamp'') (JStr t2)),
                       processed_at := p2\<rparr>)
       (parseSubtronicsPayload B t1 p1 raw)"
  unfolding parseSubtronicsPayload_def Let_def
  by (simp add: map_option_bind comp_def)



text \<open>The example state holds one alert of the device.\<close>

lemma after_fault_message_alerts:
  "map alert_id (alerts_of (get_alerts ''OTSM-0114'' after_fault_message)) =
     [''fault_OTSM-0114_1700000000000'']"
  by (simp add: eval_defs)

text \<open>
  The key under which a record is stored is never the alerts key of the same device: the
  device id prints as \<open>d\<close>, the alerts key is the string \<open>d\<close> followed by \<open>_alerts\<close>.
\<close>

lemma own_key_is_not_alerts_key:
  assumes "ToString B v = Some d"
  shows "map_key n v \<noteq> alerts_key d"
  using assms by (cases v) (auto simp: map_key_def alerts_key_def)

section \<open>The payload normalizer\<close>

text \<open>
  C2. For every payload that parses, the primary reading is resolved by trying, in order,
  \<open>Parameters["Live Sensor Readings "]\<close> (with the trailing space),
  \<open>Parameters["Live Sensor Readings"]\<close>, the top-level \<open>"Sensor Reading"\<close> and
  \<open>Parameters["Offset"]\<close>: the first value present wins and is parsed as floating point, the
  reading is 0 when none is present, and \<open>sensor_reading\<close> and \<open>offset\<close> of the record both
  carry that value.
\<close>

theorem primary_reading_priority:
  assumes "parseSubtronicsPayload B t1 t2 raw = Some r"
    and "payload_data B raw = Some data"
  shows "primary_reading_by_priority B data = Some (sensor_reading r) \<and>
         offset r = sensor_reading r"
  using parse_fields [OF assms(1)] assms(2)
  by (auto simp: gasConcentration_by_priority)

text \<open>
  With \<open>"Live Sensor Readings "\<close> 1200, \<open>"Sensor Reading"\<close> 7 and \<open>"Offset"\<close> 5 the reading
  is 1200.
\<close>

theorem primary_reading_priority_witness:
  "\<exists>r. parseSubtronicsPayload example_builtins ''2023-11-14T22:13:20.000Z''
          ''2023-11-14T22:13:20.000Z'' priority_payload = Some r \<and>
        payload_data example_builtins priority_payload = Some priority_payload \<and>
        primary_reading_by_priority example_builtins priority_payload = Some (Fin 1200) \<and>
        sensor_reading r = Fin 1200 \<and> offset r = Fin 1200"
proof -
  have d: "payload_data example_builtins priority_payload = Some priority_payload"
    by (simp add: payload_data_def priority_payload_def)
  obtain r where p: "parseSubtronicsPayload example_builtins ''2023-11-14T22:13:20.000Z''
          ''2023-11-14T22:13:20.000Z'' priority_payload = Some r"
    by (simp add: parse_defs example_defs)
  have v: "primary_reading_by_priority example_builtins priority_payload = Some (Fin 1200)"
    by (simp add: primary_reading_by_priority_def reading_candidates_def payload_params_def
        or_default_def parseFloat_def parseFloat_num_def priority_payload_def)
  from primary_reading_priority [OF p d] v p d show ?thesis by simp
qed

text \<open>
  C5. For every payload that parses, \<open>alarm_status\<close> of the record is \<open>ALARM\<close> when
  \<open>sensor_fault\<close> is 1 or one of \<open>alarm1_led\<close>, \<open>alarm2_led\<close>, \<open>alarm3_led\<close> is 1, and
  \<open>NORMAL\<close> otherwise. The derivation is unconditional: a further top-level field of the
  payload, such as an explicit \<open>"Alarm Status"\<close>, does not change it.
\<close>

theorem alarm_status_derived:
  "(parseSubtronicsPayload B t1 t2 raw = Some r \<longrightarrow>
      alarm_status r =
        (if sensor_fault r = Fin 1 \<or> alarm1_led r = Fin 1 \<or> alarm2_led r = Fin 1 \<or>
            alarm3_led r = Fin 1 then ''ALARM'' else ''NORMAL'')) \<and>
   (k \<notin> {''Parameters'', ''Unit of Measurement '', ''Unit of Measurement'',
          ''Sensor Reading''} \<longrightarrow>
      map_option alarm_status (parseSubtronicsPayload B t1 t2 (JObj ((k, v) # kvs))) =
      map_option alarm_status (parseSubtronicsPayload B t1 t2 (JObj kvs)))"
proof (intro conjI impI)
  assume "parseSubtronicsPayload B t1 t2 raw = Some r"
  from parse_fields [OF this]
  show "alarm_status r =
        (if sensor_fault r = Fin 1 \<or> alarm1_led r = Fin 1 \<or> alarm2_led r = Fin 1 \<or>
            alarm3_led r = Fin 1 then ''ALARM'' else ''NORMAL'')"
    by (auto simp: alarmStatus_def)
next
  assume "k \<notin> {''Parameters'', ''Unit of Measurement '', ''Unit of Measurement'',
          ''Sensor Reading''}"
  then show "map_option alarm_status (parseSubtronicsPayload B t1 t2 (JObj ((k, v) # kvs))) =
      map_option alarm_status (parseSubtronicsPayload B t1 t2 (JObj kvs))"
    by (rule extra_field_alarm_status)
qed

text \<open>
  The scenario payload with \<open>"Alarm Status": "NORMAL"\<close> added: the LED flag decides, the
  status is \<open>ALARM\<close>, as without the field.
\<close>

theorem alarm_status_derived_witness:
  "\<exists>r. parseSubtronicsPayload example_builtins ''2023-11-14T22:13:20.000Z''
          ''2023-11-14T22:13:20.000Z'' status_payload = Some r \<and>
        alarm1_led r = Fin 1 \<and> alarm_status r = ''ALARM'' \<and>
        ''Alarm Status'' \<notin> {''Parameters'', ''Unit of Measurement '', ''Unit of Measurement'',
          ''Sensor Reading''} \<and>
        map_option alarm_status (parseSubtronicsPayload example_builtins
          ''2023-11-14T22:13:20.000Z'' ''2023-11-14T22:13:20.000Z'' scenario) = Some ''ALARM''"
proof -
  let ?t = "''2023-11-14T22:13:20.000Z''"
  let ?rest = "[(''OTSM-2 Serial Number'', JStr ''OTSM-0114''),
       (''Parameters'', JObj [(''Live Sensor Readings '', JNum (Fin 1200)),
          (''Alarm Level A1'', JNum (Fin 250)), (''Alarm Level A2'', JNum (Fin 500)),
          (''Alarm Level A3'', JNum (Fin 1000)), (''Alarm 1 LED Status'', JNum (Fin 1))])]"
  obtain r where p: "parseSubtronicsPayload example_builtins ?t ?t status_payload = Some r"
    and l: "alarm1_led r = Fin 1"
    by (simp add: parse_defs example_defs)
  have k: "''Alarm Status'' \<notin> {''Parameters'', ''Unit of Measurement '',
      ''Unit of Measurement'', ''Sensor Reading''}"
    by simp
  note T = alarm_status_derived [of example_builtins ?t ?t status_payload r
      "''Alarm Status''" "JStr ''NORMAL''" ?rest]
  from T p l have a: "alarm_status r = ''ALARM''"
    by simp
  from T k have "map_option alarm_status (parseSubtronicsPayload example_builtins ?t ?t
        (JObj ((''Alarm Status'', JStr ''NORMAL'') # ?rest))) =
      map_option alarm_status (parseSubtronicsPayload example_builtins ?t ?t (JObj ?rest))"
    by blast
  then have "map_option alarm_status (parseSubtronicsPayload example_builtins ?t ?t scenario) =
      map_option alarm_status (parseSubtronicsPayload example_builtins ?t ?t status_payload)"
    by (simp only: scenario_def status_payload_def)
  with p a have c: "map_option alarm_status
      (parseSubtronicsPayload example_builtins ?t ?t scenario) = Some ''ALARM''"
    by simp
  show ?thesis
    by (rule exI [of _ r]) (intro conjI p l a k c)
qed

text \<open>
  C7, as the code has it. Normalizing the same raw payload twice gives records that are
  identical in every field except \<open>processed_at\<close> and except \<open>timestamp\<close>, which is the
  payload's \<open>"Date Time At Reading"\<close> or \<open>"timestamp"\<close> when one of them is truthy, in both
  records alike, and otherwise the clock reading of each run. The second run succeeds when
  the first does.
\<close>

theorem normalize_twice:
  assumes "parseSubtronicsPayload B t1 p1 raw = Some r1"
  shows "parseSubtronicsPayload B t2 p2 raw =
           Some (r1\<lparr>timestamp :=
                       or_default (get_field (raw_message r1) ''Date Time At Reading'')
                         (or_default (get_field (raw_message r1) ''timestamp'') (JStr t2)),
                     processed_at := p2\<rparr>) \<and>
         timestamp r1 = or_default (get_field (raw_message r1) ''Date Time At Reading'')
                          (or_default (get_field (raw_message r1) ''timestamp'') (JStr t1))"
proof -
  from parse_fields [OF assms]
  have ts: "timestamp r1 = or_default (get_field (raw_message r1) ''Date Time At Reading'')
                            (or_default (get_field (raw_message r1) ''timestamp'') (JStr t1))"
    by auto
  show ?thesis
    by (simp add: parse_at_other_time [of B t2 p2 raw t1 p1] assms ts [symmetric])
qed

text \<open>A payload that carries its own time: the two records differ in \<open>processed_at\<close> only.\<close>

theorem normalize_twice_witness:
  "\<exists>r1 r2. parseSubtronicsPayload example_builtins ''2023-11-14T22:13:20.000Z''
       ''2023-11-14T22:13:20.000Z'' timed_payload = Some r1 \<and>
     parseSubtronicsPayload example_builtins ''2023-11-14T22:13:20.001Z''
       ''2023-11-14T22:13:20.001Z'' timed_payload = Some r2 \<and>
     timestamp r1 = JStr ''2026-01-28 11:37:12'' \<and>
     r2 = r1\<lparr>processed_at := ''2023-11-14T22:13:20.001Z''\<rparr>"
proof -
  obtain r1 where p: "parseSubtronicsPayload example_builtins ''2023-11-14T22:13:20.000Z''
       ''2023-11-14T22:13:20.000Z'' timed_payload = Some r1"
    and m: "raw_message r1 = timed_payload"
    by (simp add: parse_defs example_defs)
  have f: "or_default (get_field timed_payload ''Date Time At Reading'')
        (or_default (get_field timed_payload ''timestamp'') (JStr t)) =
      JStr ''2026-01-28 11:37:12''" for t
    by (simp add: timed_payload_def or_default_def)
  note T = normalize_twice [OF p, of "''2023-11-14T22:13:20.001Z''"
      "''2023-11-14T22:13:20.001Z''", unfolded m f]
  from T have u: "timestamp r1 = JStr ''2026-01-28 11:37:12''"
    by (rule conjunct2)
  from T have "parseSubtronicsPayload example_builtins ''2023-11-14T22:13:20.001Z''
       ''2023-11-14T22:13:20.001Z'' timed_payload =
      Some (r1\<lparr>timestamp := JStr ''2026-01-28 11:37:12'',
                processed_at := ''2023-11-14T22:13:20.001Z''\<rparr>)"
    by (rule conjunct1)
  then have q: "parseSubtronicsPayload example_builtins ''2023-11-14T22:13:20.001Z''
       ''2023-11-14T22:13:20.001Z'' timed_payload =
      Some (r1\<lparr>processed_at := ''2023-11-14T22:13:20.001Z''\<rparr>)"
    by (simp add: u [symmetric])
  show ?thesis
    by (intro exI [of _ r1] exI [of _ "r1\<lparr>processed_at := ''2023-11-14T22:13:20.001Z''\<rparr>"]
        conjI p q u refl)
qed

text \<open>
  The scenario payload carries no time of its own: normalized a millisecond apart, its two
  records differ in \<open>timestamp\<close>, which is not \<open>processed_at\<close>.
\<close>

theorem normalize_twice_counterexample:
  "map_option timestamp (parseSubtronicsPayload example_builtins
      ''2023-11-14T22:13:20.000Z'' ''2023-11-14T22:13:20.000Z'' scenario) =
     Some (JStr ''2023-11-14T22:13:20.000Z'') \<and>
   map_option timestamp (parseSubtronicsPayload example_builtins
      ''2023-11-14T22:13:20.001Z'' ''2023-11-14T22:13:20.001Z'' scenario) =
     Some (JStr ''2023-11-14T22:13:20.001Z'') \<and>
   JStr ''2023-11-14T22:13:20.000Z'' \<noteq> JStr ''2023-11-14T22:13:20.001Z''"
  by (simp add: parse_defs example_defs)

text \<open>
  C10. A zero alarm level cannot be told from an absent one: when \<open>"Alarm Level A1"\<close> of the
  parameters parses to 0 the record has \<open>a1_level\<close> 250, and likewise 500 for A2 and 1000
  for A3, so no record made by the parser has a level 0. The rule engine does the same
  when it reads the levels of any record \<open>d\<close>: a level 0 is read as 250, 500 or 1000, and
  the level it compares with is never 0.
\<close>

theorem zero_level_reads_as_default:
  assumes "parseSubtronicsPayload B t1 t2 raw = Some r"
    and "payload_data B raw = Some data"
  shows "(parseInt B (get_field (payload_params data) ''Alarm Level A1'') = Some (Fin 0)
            \<longrightarrow> a1_level r = Fin 250) \<and>
         (parseInt B (get_field (payload_params data) ''Alarm Level A2'') = Some (Fin 0)
            \<longrightarrow> a2_level r = Fin 500) \<and>
         (parseInt B (get_field (payload_params data) ''Alarm Level A3'') = Some (Fin 0)
            \<longrightarrow> a3_level r = Fin 1000) \<and>
         a1_level r \<noteq> Fin 0 \<and> a2_level r \<noteq> Fin 0 \<and> a3_level r \<noteq> Fin 0 \<and>
         (a1_level d = Fin 0 \<longrightarrow> a1Level d = Fin 250) \<and>
         (a2_level d = Fin 0 \<longrightarrow> a2Level d = Fin 500) \<and>
         (a3_level d = Fin 0 \<longrightarrow> a3Level d = Fin 1000) \<and>
         a1Level d \<noteq> Fin 0 \<and> a2Level d \<noteq> Fin 0 \<and> a3Level d \<noteq> Fin 0"
proof -
  from parse_fields [OF assms(1)] assms(2)
  have a1: "int_param B (payload_params data) ''Alarm Level A1'' (Fin 250) = Some (a1_level r)"
    and a2: "int_param B (payload_params data) ''Alarm Level A2'' (Fin 500) = Some (a2_level r)"
    and a3: "int_param B (payload_params data) ''Alarm Level A3'' (Fin 1000) = Some (a3_level r)"
    by auto
  have engine: "(a1_level d = Fin 0 \<longrightarrow> a1Level d = Fin 250) \<and>
         (a2_level d = Fin 0 \<longrightarrow> a2Level d = Fin 500) \<and>
         (a3_level d = Fin 0 \<longrightarrow> a3Level d = Fin 1000) \<and>
         a1Level d \<noteq> Fin 0 \<and> a2Level d \<noteq> Fin 0 \<and> a3Level d \<noteq> Fin 0"
    by (simp add: a1Level_def a2Level_def a3Level_def parseFloat_num_def num_or_def)
  from int_param_zero [OF a1] int_param_zero [OF a2] int_param_zero [OF a3]
    int_param_not_zero [OF a1] int_param_not_zero [OF a2] int_param_not_zero [OF a3] engine
  show ?thesis by simp
qed

text \<open>
  The payload with the three levels configured as 0 (the third as the text \<open>0\<close>) gives the
  levels 250, 500 and 1000, and the engine reads a record with zero levels the same way.
\<close>

theorem zero_level_reads_as_default_witness:
  "\<exists>r. parseSubtronicsPayload example_builtins ''2023-11-14T22:13:20.000Z''
          ''2023-11-14T22:13:20.000Z'' zero_levels_payload = Some r \<and>
        payload_data example_builtins zero_levels_payload = Some zero_levels_payload \<and>
        parseInt example_builtins
          (get_field (payload_params zero_levels_payload) ''Alarm Level A1'') = Some (Fin 0) \<and>
        parseInt example_builtins
          (get_field (payload_params zero_levels_payload) ''Alarm Level A2'') = Some (Fin 0) \<and>
        parseInt example_builtins
          (get_field (payload_params zero_levels_payload) ''Alarm Level A3'') = Some (Fin 0) \<and>
        a1_level r = Fin 250 \<and> a2_level r = Fin 500 \<and> a3_level r = Fin 1000 \<and>
        a1Level (scenario_record\<lparr>a1_level := Fin 0\<rparr>) = Fin 250 \<and>
        a2Level (scenario_record\<lparr>a2_level := Fin 0\<rparr>) = Fin 500 \<and>
        a3Level (scenario_record\<lparr>a3_level := Fin 0\<rparr>) = Fin 1000"
proof -
  let ?t = "''2023-11-14T22:13:20.000Z''"
  let ?d = "scenario_record\<lparr>a1_level := Fin 0, a2_level := Fin 0, a3_level := Fin 0\<rparr>"
  have d: "payload_data example_builtins zero_levels_payload = Some zero_levels_payload"
    by (simp add: payload_data_def zero_levels_payload_def)
  obtain r where p: "parseSubtronicsPayload example_builtins ?t ?t zero_levels_payload = Some r"
    by (simp add: parse_defs example_defs)
  have z: "parseInt example_builtins
          (get_field (payload_params zero_levels_payload) ''Alarm Level A1'') = Some (Fin 0)"
     "parseInt example_builtins
          (get_field (payload_params zero_levels_payload) ''Alarm Level A2'') = Some (Fin 0)"
     "parseInt example_builtins
          (get_field (payload_params zero_levels_payload) ''Alarm Level A3'') = Some (Fin 0)"
    by (simp_all add: parseInt_def payload_params_def or_default_def example_defs)
  have e: "a1_level ?d = Fin 0" "a2_level ?d = Fin 0" "a3_level ?d = Fin 0"
    by simp_all
  from zero_level_reads_as_default [OF p d, of ?d] z e p d
  show ?thesis by (simp add: a1Level_def a2Level_def a3Level_def)
qed

section \<open>The alert rule engine\<close>

text \<open>
  C1, as the code has it. For every canonical record whose serial number prints (a string,
  a number and a boolean always do), generateSubtronicsAlerts returns, in this order: one
  \<open>sensor_fault\<close>/critical alert exactly when \<open>sensor_fault\<close> is 1, then at most one
  threshold alert, chosen from the highest level down: \<open>alarm_level_3\<close>/critical when the
  reading is at least the A3 level, else \<open>alarm_level_2\<close>/high when it is at least the A2
  level, else \<open>alarm_level_1\<close>/warning when it is at least the A1 level, else none; a tie
  is a breach. The reading compared is \<open>sensor_reading\<close> with \<open>NaN\<close> read as 0, and each
  level is the record's level with 0 and \<open>NaN\<close> read as the default 250, 500 or 1000.
\<close>

theorem generateSubtronicsAlerts_cascade:
  assumes "ToString B (serial_number r) = Some sn"
  shows "let reading = num_or (sensor_reading r) (Fin 0);
             a1 = num_or (a1_level r) (Fin 250);
             a2 = num_or (a2_level r) (Fin 500);
             a3 = num_or (a3_level r) (Fin 1000)
         in map_option (map (\<lambda>a. (alert_type a, alert_severity a)))
              (generateSubtronicsAlerts B c1 c2 r) =
            Some ((if sensor_fault r = Fin 1 then [(''sensor_fault'', ''critical'')] else []) @
                  (if js_ge reading a3 then [(''alarm_level_3'', ''critical'')]
                   else if js_ge reading a2 then [(''alarm_level_2'', ''high'')]
                   else if js_ge reading a1 then [(''alarm_level_1'', ''warning'')]
                   else []))"
  using assms
  by (simp add: alert_defs parseFloat_num_def Let_def)

text \<open>The record of the end-to-end scenario yields exactly one \<open>alarm_level_3\<close> alert.\<close>

theorem generateSubtronicsAlerts_cascade_witness:
  "ToString example_builtins (serial_number scenario_record) = Some ''OTSM-0114'' \<and>
   map_option (map (\<lambda>a. (alert_type a, alert_severity a)))
     (generateSubtronicsAlerts example_builtins (ck_fault clock_a) (ck_alarm clock_a)
        scenario_record) = Some [(''alarm_level_3'', ''critical'')]"
proof -
  have sn: "ToString example_builtins (serial_number scenario_record) = Some ''OTSM-0114''"
    by (simp add: scenario_record_def)
  show ?thesis
    using sn generateSubtronicsAlerts_cascade [OF sn, of "ck_fault clock_a" "ck_alarm clock_a"]
    by (simp add: scenario_record_def num_or_def Let_def)
qed

text \<open>
  The specification words the cascade on the record's \<open>sensor_reading\<close> and the record's
  levels. The record of the device that reports \<open>ERR\<close> has a reading that is not a number,
  which is at least no level at all, and yet the engine raises \<open>alarm_level_3\<close>: it
  compares 0 with the level -10.
\<close>

theorem cascade_on_record_fields_counterexample:
  "\<not> js_ge (sensor_reading unreadable_record) (a3_level unreadable_record) \<and>
   \<not> js_ge (sensor_reading unreadable_record) (a2_level unreadable_record) \<and>
   \<not> js_ge (sensor_reading unreadable_record) (a1_level unreadable_record) \<and>
   map_option (map alert_type)
     (generateSubtronicsAlerts example_builtins (ck_fault clock_a) (ck_alarm clock_a)
        unreadable_record) = Some [''alarm_level_3'']"
  by (simp add: unreadable_record_def alert_defs parseFloat_num_def num_or_def example_defs)

text \<open>
  C6, at an input where it fails. The handler runs twice on the same message of one device
  within the same millisecond: the two \<open>sensor_fault\<close> alerts are stored under one and the
  same id, and acknowledging that id marks the first of them only.
\<close>

theorem same_millisecond_same_id:
  "map alert_id (alerts_of (get_alerts ''OTSM-0114''
      (on_message example_builtins clock_a fault_message after_fault_message))) =
     [''fault_OTSM-0114_1700000000000'', ''fault_OTSM-0114_1700000000000''] \<and>
   map alert_acknowledged_at (alerts_of (get_alerts ''OTSM-0114''
      (snd (acknowledge ''2023-11-14T22:13:20.001Z'' ''OTSM-0114''
         ''fault_OTSM-0114_1700000000000'' (Some (JStr ''operator''))
         (on_message example_builtins clock_a fault_message after_fault_message))))) =
     [Some ''2023-11-14T22:13:20.001Z'', None]"
  by (simp add: eval_defs)

section \<open>The message handler\<close>

text \<open>
  C4. A string that \<open>JSON.parse\<close> rejects makes parseSubtronicsPayload return \<open>null\<close>, never
  a partial record. A message that \<open>JSON.parse\<close> rejects, and a message whose payload
  parseSubtronicsPayload rejects, leave the whole state as it was: the store is unchanged
  and neither a data event nor an alerts event is emitted.
\<close>

theorem failed_parse_changes_nothing:
  "(JSON_parse B str = None \<longrightarrow> parseSubtronicsPayload B tr tp (JStr str) = None) \<and>
   (JSON_parse B message = None \<longrightarrow> on_message B ck message s = s) \<and>
   (JSON_parse B message = Some data \<and>
    parseSubtronicsPayload B (t_reading ck) (t_processed ck) data = None \<longrightarrow>
      on_message B ck message s = s)"
  by (simp add: on_message_def parseSubtronicsPayload_def payload_data_def)

text \<open>A truncated message and the message \<open>null\<close> both leave the example state unchanged.\<close>

theorem failed_parse_changes_nothing_witness:
  "JSON_parse example_builtins truncated_message = None \<and>
   parseSubtronicsPayload example_builtins ''2023-11-14T22:13:20.001Z''
     ''2023-11-14T22:13:20.001Z'' (JStr truncated_message) = None \<and>
   on_message example_builtins clock_b truncated_message after_fault_message =
     after_fault_message \<and>
   JSON_parse example_builtins ''null'' = Some JNull \<and>
   parseSubtronicsPayload example_builtins (t_reading clock_b) (t_processed clock_b) JNull =
     None \<and>
   on_message example_builtins clock_b ''null'' after_fault_message = after_fault_message"
proof -
  have t: "JSON_parse example_builtins truncated_message = None"
    by (simp add: example_defs)
  have n: "JSON_parse example_builtins ''null'' = Some JNull"
    by (simp add: example_defs)
  have p: "parseSubtronicsPayload example_builtins (t_reading clock_b) (t_processed clock_b)
      JNull = None"
    by (simp add: parseSubtronicsPayload_def payload_data_def)
  from failed_parse_changes_nothing [where B = example_builtins and str = truncated_message
      and tr = "''2023-11-14T22:13:20.001Z''" and tp = "''2023-11-14T22:13:20.001Z''"
      and message = truncated_message and ck = clock_b and s = after_fault_message] t
  have a: "parseSubtronicsPayload example_builtins ''2023-11-14T22:13:20.001Z''
     ''2023-11-14T22:13:20.001Z'' (JStr truncated_message) = None"
    and b: "on_message example_builtins clock_b truncated_message after_fault_message =
     after_fault_message"
    by blast+
  from failed_parse_changes_nothing [where B = example_builtins and message = "''null''"
      and data = JNull and ck = clock_b and s = after_fault_message] n p
  have c: "on_message example_builtins clock_b ''null'' after_fault_message =
      after_fault_message"
    by blast
  show ?thesis
    by (intro conjI t a b n p c)
qed

text \<open>
  C8. For every message that parses and normalizes to a record, the events the handler
  emits are, in this order: the data event for the room of the record's device, carrying
  the device id, that record and the time of emission; then, when the rule engine
  generated alerts from that record, the alerts event for the same room and device id
  carrying those alerts. An alerts event is never emitted before the data event of its
  record, and never without it. Nothing is emitted when the device id does not print, and
  the alerts event is left out when the value stored under the device's alerts key is a
  record.
\<close>

theorem data_event_precedes_alerts_event:
  assumes "JSON_parse B message = Some data"
    and "parseSubtronicsPayload B (t_reading ck) (t_processed ck) data = Some normalized"
  shows "emitted (on_message B ck message s) = emitted s @
     (case ToString B (serial_number normalized) of
        None \<Rightarrow> []
      | Some d \<Rightarrow>
          Device_data (''device:'' @ d) (serial_number normalized) normalized (t_emit ck) #
          (case generateSubtronicsAlerts B (ck_fault ck) (ck_alarm ck) normalized of
             None \<Rightarrow> []
           | Some alerts \<Rightarrow>
               (case subtronicsData s (alerts_key d) of
                  Some (Record r) \<Rightarrow> []
                | _ \<Rightarrow>
                    if alerts = [] then []
                    else [Device_alerts (''device:'' @ d) (serial_number normalized) alerts])))"
proof (cases "ToString B (serial_number normalized)")
  case None
  with assms show ?thesis
    by (simp add: on_message_def Let_def)
next
  case (Some d)
  from own_key_is_not_alerts_key [OF Some]
  have k: "alerts_key d \<noteq> map_key (next_ref s) (serial_number normalized)"
    by (rule not_sym)
  from assms Some k show ?thesis
    by (simp add: on_message_def Let_def split: option.splits stored.splits)
qed

text \<open>
  The first message of the faulty device: the data event with the record of the message,
  then the alerts event with the alert generated from it.
\<close>

theorem data_event_precedes_alerts_event_witness:
  "\<exists>r as. JSON_parse example_builtins fault_message =
       Some (JObj [(''OTSM-2 Serial Number'', JStr ''OTSM-0114''),
                   (''Parameters'', JObj [(''Sensor Fault'', JNum (Fin 1))])]) \<and>
     parseSubtronicsPayload example_builtins (t_reading clock_a) (t_processed clock_a)
       (JObj [(''OTSM-2 Serial Number'', JStr ''OTSM-0114''),
              (''Parameters'', JObj [(''Sensor Fault'', JNum (Fin 1))])]) = Some r \<and>
     generateSubtronicsAlerts example_builtins (ck_fault clock_a) (ck_alarm clock_a) r =
       Some as \<and>
     map alert_type as = [''sensor_fault''] \<and>
     emitted (on_message example_builtins clock_a fault_message initial_state) =
       [Device_data ''device:OTSM-0114'' (JStr ''OTSM-0114'') r (t_emit clock_a),
        Device_alerts ''device:OTSM-0114'' (JStr ''OTSM-0114'') as]"
proof -
  let ?data = "JObj [(''OTSM-2 Serial Number'', JStr ''OTSM-0114''),
                     (''Parameters'', JObj [(''Sensor Fault'', JNum (Fin 1))])]"
  have j: "JSON_parse example_builtins fault_message = Some ?data"
    by (simp add: example_defs)
  obtain r where p: "parseSubtronicsPayload example_builtins (t_reading clock_a)
      (t_processed clock_a) ?data = Some r"
    and f: "sensor_fault r = Fin 1" "serial_number r = JStr ''OTSM-0114''"
      "sensor_reading r = Fin 0" "a1_level r = Fin 250" "a2_level r = Fin 500"
      "a3_level r = Fin 1000"
    by (simp add: parse_defs example_defs)
  obtain as where g: "generateSubtronicsAlerts example_builtins (ck_fault clock_a)
      (ck_alarm clock_a) r = Some as"
    and t: "map alert_type as = [''sensor_fault'']"
    using f by (simp add: alert_defs parseFloat_num_def num_or_def)
  from t have ne: "as \<noteq> []"
    by auto
  have sn: "ToString example_builtins (serial_number r) = Some ''OTSM-0114''"
    using f by simp
  have st: "subtronicsData initial_state (alerts_key ''OTSM-0114'') = None"
    by (simp add: initial_state_def)
  have em: "emitted initial_state = []"
    by (simp add: initial_state_def)
  from data_event_precedes_alerts_event [OF j p, of initial_state]
  have e: "emitted (on_message example_builtins clock_a fault_message initial_state) =
       [Device_data ''device:OTSM-0114'' (JStr ''OTSM-0114'') r (t_emit clock_a),
        Device_alerts ''device:OTSM-0114'' (JStr ''OTSM-0114'') as]"
    by (simp add: sn g st em ne f(2))
  show ?thesis
    by (intro exI [of _ r] exI [of _ as] conjI j p g t e)
qed

text \<open>
  C9. The current records and the alert lists share the Map \<open>subtronicsData\<close>: a message
  with the serial number \<open>sn\<close> stores its record under \<open>sn\<close>, appends its alerts to the
  list under \<open>sn\<close> followed by \<open>_alerts\<close>, and leaves every other key alone. Hence a
  message whose serial number is another device's followed by \<open>_alerts\<close> puts its record
  where that device's alert list was, and the alerts route of that device then answers
  with the record.
\<close>

theorem shared_map_alias:
  assumes "JSON_parse B message = Some data"
    and "parseSubtronicsPayload B (t_reading ck) (t_processed ck) data = Some normalized"
    and "serial_number normalized = JStr sn"
  shows "subtronicsData (on_message B ck message s) (KVal (JStr sn)) = Some (Record normalized) \<and>
     (\<forall>k. k \<noteq> KVal (JStr sn) \<and> k \<noteq> alerts_key sn \<longrightarrow>
          subtronicsData (on_message B ck message s) k = subtronicsData s k) \<and>
     (\<forall>as old. generateSubtronicsAlerts B (ck_fault ck) (ck_alarm ck) normalized = Some as \<and>
          as \<noteq> [] \<and> subtronicsData s (alerts_key sn) = Some (Alerts old) \<longrightarrow>
          subtronicsData (on_message B ck message s) (alerts_key sn) = Some (Alerts (old @ as))) \<and>
     (\<forall>d. sn = d @ ''_alerts'' \<longrightarrow>
          subtronicsData (on_message B ck message s) (alerts_key d) = Some (Record normalized) \<and>
          get_alerts d (on_message B ck message s) = Record normalized)"
  using assms
  by (auto simp: on_message_def Let_def map_key_def alerts_key_def get_alerts_def
      split: option.splits stored.splits)

text \<open>
  A device named \<open>OTSM-0114_alerts\<close> reports after \<open>OTSM-0114\<close> has one alert: the alert
  list of \<open>OTSM-0114\<close> is gone.
\<close>

theorem shared_map_alias_witness:
  "JSON_parse example_builtins alias_message =
     Some (JObj [(''OTSM-2 Serial Number'', JStr ''OTSM-0114_alerts'')]) \<and>
   map alert_type (alerts_of (get_alerts ''OTSM-0114'' after_fault_message)) = [''sensor_fault''] \<and>
   (\<exists>r. parseSubtronicsPayload example_builtins (t_reading clock_b) (t_processed clock_b)
          (JObj [(''OTSM-2 Serial Number'', JStr ''OTSM-0114_alerts'')]) = Some r \<and>
        serial_number r = JStr (''OTSM-0114'' @ ''_alerts'') \<and>
        get_alerts ''OTSM-0114''
          (on_message example_builtins clock_b alias_message after_fault_message) = Record r)"
proof -
  let ?data = "JObj [(''OTSM-2 Serial Number'', JStr ''OTSM-0114_alerts'')]"
  have j: "JSON_parse example_builtins alias_message = Some ?data"
    by (simp add: example_defs)
  have a: "map alert_type (alerts_of (get_alerts ''OTSM-0114'' after_fault_message)) =
      [''sensor_fault'']"
    by (simp add: eval_defs)
  obtain r where p: "parseSubtronicsPayload example_builtins (t_reading clock_b)
      (t_processed clock_b) ?data = Some r"
    and n: "serial_number r = JStr (''OTSM-0114'' @ ''_alerts'')"
    by (simp add: parse_defs example_defs)
  from shared_map_alias [OF j p n, of after_fault_message]
  have "get_alerts ''OTSM-0114''
      (on_message example_builtins clock_b alias_message after_fault_message) = Record r"
    by blast
  with j a p n show ?thesis
    by (intro conjI exI [of _ r])
qed

section \<open>The acknowledge route\<close>




end
